theory Spec2Isabelle
  imports Main "HOL-Library.Word"
begin

unbundle bit_operations_syntax

section \<open>The HTTP(S) server wrapper of utils/http.go\<close>

text \<open>
  The wrapper has two operations with design content: \<open>EnsureCert\<close>, which resolves
  the TLS material before the listener starts, and \<open>ListenAndServe\<close>, which maps the
  outcome of the standard library's serve loop to the wrapper's own result.
  Both are embedded as state-passing functions. Everything they call outside the
  package (the operating system's files, \<open>crypto/tls\<close>, the certificate generator,
  \<open>net/http\<close>, \<open>trace\<close>, the logger) is either modelled by the small, explicit
  semantics below or taken as a parameter.
\<close>

subsection \<open>Go errors\<close>

datatype errno = ENOENT | EACCES | EISDIR | ENOSPC | EIO | EADDRINUSE

text \<open>
  A non-nil Go \<open>error\<close> value. A Go result of type \<open>error\<close> is a
  \<open>go_error option\<close>, \<open>None\<close> being \<open>nil\<close>.
\<close>

datatype go_error =
    PathError string string errno    \<comment> \<open>\<open>*os.PathError{Op, Path, Err}\<close>\<close>
  | PlainError string                \<comment> \<open>\<open>errors.New\<close>, \<open>fmt.Errorf\<close>: parse failures and the like\<close>
  | OpError string errno             \<comment> \<open>\<open>*net.OpError\<close>: bind and accept failures\<close>
  | ErrServerClosed                  \<comment> \<open>the sentinel \<open>http.ErrServerClosed\<close>\<close>
  | TraceErr go_error "string list"  \<comment> \<open>\<open>trace.Error\<close>: the original error and the user messages\<close>

text \<open>
  \<open>os.IsNotExist\<close> looks through a \<open>*PathError\<close> only and asks whether the
  system error below it is \<open>ENOENT\<close>.
\<close>

fun IsNotExist :: "go_error \<Rightarrow> bool" where
  "IsNotExist (PathError opn path e) = (e = ENOENT)"
| "IsNotExist _ = False"

text \<open>
  \<open>trace.Wrap(err, args...)\<close>: \<open>nil\<close> stays \<open>nil\<close>; an error that already is a
  \<open>trace.Error\<close> is kept and the message added; any other error is wrapped.
\<close>

fun trace_Wrap :: "go_error option \<Rightarrow> string list \<Rightarrow> go_error option" where
  "trace_Wrap None args = None"
| "trace_Wrap (Some (TraceErr e ms)) args = Some (TraceErr e (ms @ args))"
| "trace_Wrap (Some e) args = Some (TraceErr e args)"

fun is_wrapped :: "go_error option \<Rightarrow> bool" where
  "is_wrapped (Some (TraceErr e ms)) = True"
| "is_wrapped _ = False"

subsection \<open>The world outside the package\<close>

record file_entry =
  content :: string
  mode :: "32 word"

datatype wfail =
    OpenFails errno       \<comment> \<open>the file cannot be opened or created; nothing changes\<close>
  | WriteFails errno nat  \<comment> \<open>opened and truncated, the write stops after so many bytes\<close>

datatype log_level = Info | Warning

datatype event =
    EvLog log_level string
  | EvReadFile string
  | EvWriteFile string string "32 word"
  | EvGenerate "string list"
  | EvListenAndServe string
  | EvListenAndServeTLS string string string

text \<open>
  \<open>files\<close> is the directory tree as far as the wrapper sees it, \<open>umask\<close> the
  process's file mode creation mask, \<open>rfault\<close> and \<open>wfault\<close> the reasons for
  which the operating system refuses a path (permissions, a full disk), and
  \<open>events\<close> the log of every effect, oldest first.
\<close>

record world =
  files :: "string \<rightharpoonup> file_entry"
  umask :: "32 word"
  rfault :: "string \<rightharpoonup> errno"
  wfault :: "string \<rightharpoonup> wfail"
  events :: "event list"

definition emit :: "event \<Rightarrow> world \<Rightarrow> world" where
  "emit ev w = w\<lparr>events := events w @ [ev]\<rparr>"

definition log_Warningf :: "string \<Rightarrow> world \<Rightarrow> world" where
  "log_Warningf msg w = emit (EvLog Warning msg) w"

definition log_Info :: "string \<Rightarrow> world \<Rightarrow> world" where
  "log_Info msg w = emit (EvLog Info msg) w"

text \<open>\<open>os.ReadFile\<close>: a missing file is \<open>ENOENT\<close>.\<close>

definition ReadFile :: "string \<Rightarrow> world \<Rightarrow> (go_error + string) \<times> world" where
  "ReadFile name w =
     (let w1 = emit (EvReadFile name) w in
      case rfault w name of
        Some e \<Rightarrow> (Inl (PathError ''open'' name e), w1)
      | None \<Rightarrow>
          (case files w name of
             None \<Rightarrow> (Inl (PathError ''open'' name ENOENT), w1)
           | Some f \<Rightarrow> (Inr (content f), w1)))"

text \<open>
  \<open>ioutil.WriteFile(name, data, perm)\<close> opens with create and truncate: a new file
  gets \<open>perm\<close> less the umask, an existing one keeps its mode and loses its content.
\<close>

definition store :: "string \<Rightarrow> string \<Rightarrow> 32 word \<Rightarrow> world \<Rightarrow> world" where
  "store name data perm w =
     w\<lparr>files := (files w)(name \<mapsto>
          \<lparr>content = data,
           mode = (case files w name of
                     None \<Rightarrow> perm AND NOT (umask w)
                   | Some f \<Rightarrow> mode f)\<rparr>)\<rparr>"

definition WriteFile :: "string \<Rightarrow> string \<Rightarrow> 32 word \<Rightarrow> world \<Rightarrow> go_error option \<times> world" where
  "WriteFile name data perm w =
     (let w1 = emit (EvWriteFile name data perm) w in
      case wfault w name of
        Some (OpenFails e) \<Rightarrow> (Some (PathError ''open'' name e), w1)
      | Some (WriteFails e n) \<Rightarrow>
          (Some (PathError ''write'' name e), store name (take n data) perm w1)
      | None \<Rightarrow> (None, store name data perm w1))"

text \<open>The octal file mode \<open>0600\<close>: read and write for the owner.\<close>

definition perm_0600 :: "32 word" where
  "perm_0600 = 6 * 64"


subsection \<open>The TLS library and the certificate generator\<close>

record TLSCredentials =
  PrivateKey :: string
  Cert :: string

text \<open>
  \<open>X509KeyPair cert key\<close> is \<open>tls.X509KeyPair\<close>: \<open>None\<close> when both PEM blocks
  parse and the key matches the certificate. \<open>GenerateSelfSignedCert hosts\<close> is the
  generator of \<open>teleport/lib/utils\<close>. Both are parameters.
\<close>

record crypto_env =
  X509KeyPair :: "string \<Rightarrow> string \<Rightarrow> go_error option"
  GenerateSelfSignedCert :: "string list \<Rightarrow> go_error + TLSCredentials"

text \<open>
  \<open>tls.LoadX509KeyPair(certFile, keyFile)\<close> reads the certificate file, then the
  key file, then parses the pair; the first failure is returned. The parsed
  certificate is dropped by every caller here, so only the error is kept.
\<close>

definition LoadX509KeyPair ::
  "crypto_env \<Rightarrow> string \<Rightarrow> string \<Rightarrow> world \<Rightarrow> go_error option \<times> world" where
  "LoadX509KeyPair env certFile keyFile w =
     (case ReadFile certFile w of
        (Inl e, w1) \<Rightarrow> (Some e, w1)
      | (Inr certPEM, w1) \<Rightarrow>
          (case ReadFile keyFile w1 of
             (Inl e, w2) \<Rightarrow> (Some e, w2)
           | (Inr keyPEM, w2) \<Rightarrow> (X509KeyPair env certPEM keyPEM, w2)))"

definition generate ::
  "crypto_env \<Rightarrow> string list \<Rightarrow> world \<Rightarrow> (go_error + TLSCredentials) \<times> world" where
  "generate env hosts w = (GenerateSelfSignedCert env hosts, emit (EvGenerate hosts) w)"

subsection \<open>The wrapper\<close>

record HTTPConfig =
  Listen :: string
  KeyFile :: string
  CertFile :: string
  Hostname :: string
  Insecure :: bool

text \<open>
  \<open>HTTP\<close> embeds the configuration and owns the server. Of the server only the
  address and the installed handler matter here; the handler is the wrapper around
  the router, identified by the scope it was built for.
\<close>

record HTTP = HTTPConfig +
  server_Addr :: string
  server_Handler :: "nat option"

definition NewHTTP :: "HTTPConfig \<Rightarrow> HTTP" where
  "NewHTTP config =
     \<lparr>Listen = Listen config, KeyFile = KeyFile config, CertFile = CertFile config,
      Hostname = Hostname config, Insecure = Insecure config,
      server_Addr = Listen config, server_Handler = None\<rparr>"

definition config_of :: "HTTP \<Rightarrow> HTTPConfig" where
  "config_of h =
     \<lparr>Listen = Listen h, KeyFile = KeyFile h, CertFile = CertFile h,
      Hostname = Hostname h, Insecure = Insecure h\<rparr>"

text \<open>The generation branch of \<open>EnsureCert\<close>, from the second warning on.\<close>

definition generate_and_persist ::
  "crypto_env \<Rightarrow> HTTP \<Rightarrow> world \<Rightarrow> go_error option \<times> HTTP \<times> world" where
  "generate_and_persist env h w =
     (let w1 = log_Warningf
                 (''Generating self signed key and cert to '' @ KeyFile h @ '' '' @ CertFile h @ ''.'') w
      in case generate env [Hostname h, ''localhost''] w1 of
           (Inl e, w2) \<Rightarrow> (trace_Wrap (Some e) [], h, w2)
         | (Inr creds, w2) \<Rightarrow>
             (case WriteFile (KeyFile h) (PrivateKey creds) perm_0600 w2 of
                (Some e, w3) \<Rightarrow> (trace_Wrap (Some e) [''error writing key PEM''], h, w3)
              | (None, w3) \<Rightarrow>
                  (case WriteFile (CertFile h) (Cert creds) perm_0600 w3 of
                     (Some e, w4) \<Rightarrow> (trace_Wrap (Some e) [''error writing cert PEM''], h, w4)
                   | (None, w4) \<Rightarrow> (None, h, w4))))"

definition EnsureCert ::
  "crypto_env \<Rightarrow> string \<Rightarrow> HTTP \<Rightarrow> world \<Rightarrow> go_error option \<times> HTTP \<times> world" where
  "EnsureCert env defaultPath h w =
     (if Insecure h then (None, h, w)
      else if CertFile h \<noteq> [] then
        (case LoadX509KeyPair env (CertFile h) (KeyFile h) w of (err, w1) \<Rightarrow> (err, h, w1))
      else
        (let w1 = log_Warningf ''No TLS Keys provided, using self signed certificate.'' w;
             h1 = h\<lparr>CertFile := defaultPath @ ''.crt''\<rparr>;
             h2 = h1\<lparr>KeyFile := defaultPath @ ''.key''\<rparr>
         in case LoadX509KeyPair env (CertFile h2) (KeyFile h2) w1 of
              (None, w2) \<Rightarrow> (None, h2, w2)
            | (Some e, w2) \<Rightarrow>
                if \<not> IsNotExist e
                then (trace_Wrap (Some e) [''unrecognized error reading certs''], h2, w2)
                else generate_and_persist env h2 w2))"

text \<open>
  \<open>ListenAndServe\<close>. The serve loop of \<open>net/http\<close> blocks until the server stops and
  then always returns a non-nil error; what it returns is the parameter \<open>outcome\<close>
  (the sentinel after \<open>Close\<close> or \<open>Shutdown\<close>, the bind failure otherwise). The
  goroutine that closes the server once the scope is done runs beside the loop; its
  effect on the loop is part of \<open>outcome\<close>. Of the handler wrapper the model keeps
  the scope it was built for. The deferred log line is the last effect.
\<close>

definition ListenAndServe ::
  "go_error \<Rightarrow> nat \<Rightarrow> HTTP \<Rightarrow> world \<Rightarrow> go_error option \<times> HTTP \<times> world" where
  "ListenAndServe outcome ctx h w =
     (let h1 = h\<lparr>server_Handler := Some ctx\<rparr>;
          w1 = (if Insecure h1
                then emit (EvListenAndServe (server_Addr h1))
                       (log_Info (''Starting insecure HTTP server on '' @ Listen h1) w)
                else emit (EvListenAndServeTLS (server_Addr h1) (CertFile h1) (KeyFile h1))
                       (log_Info (''Starting secure HTTPS server on '' @ Listen h1) w));
          err = Some outcome;
          res = (if err = Some ErrServerClosed then None else trace_Wrap err []);
          w2 = log_Info ''HTTP server terminated'' w1
      in (res, h1, w2))"

text \<open>
  \<open>Shutdown\<close> and \<open>ShutdownWithTimeout\<close> hand over to the server's own graceful
  shutdown, whose result is the parameter; the second only derives the deadline.
\<close>

definition Shutdown ::
  "go_error option \<Rightarrow> HTTP \<Rightarrow> world \<Rightarrow> go_error option \<times> HTTP \<times> world" where
  "Shutdown outcome h w = (outcome, h, w)"

definition ShutdownWithTimeout ::
  "go_error option \<Rightarrow> nat \<Rightarrow> HTTP \<Rightarrow> world \<Rightarrow> go_error option \<times> HTTP \<times> world" where
  "ShutdownWithTimeout outcome duration h w = Shutdown outcome h w"

subsection \<open>What the effect log says\<close>

fun is_write :: "event \<Rightarrow> bool" where
  "is_write (EvWriteFile name data perm) = True"
| "is_write _ = False"

fun is_read :: "event \<Rightarrow> bool" where
  "is_read (EvReadFile name) = True"
| "is_read _ = False"

fun is_generate :: "event \<Rightarrow> bool" where
  "is_generate (EvGenerate hosts) = True"
| "is_generate _ = False"

text \<open>The events a call added to the log.\<close>

definition new_events :: "world \<Rightarrow> world \<Rightarrow> event list" where
  "new_events w w' = drop (length (events w)) (events w')"


subsection \<open>A concrete installation\<close>

text \<open>
  A toy TLS library that accepts exactly one pair, a generator that produces it, an
  empty data directory with the usual umask \<open>022\<close>, and a configuration without
  explicit files.
\<close>

definition env0 :: crypto_env where
  "env0 =
     \<lparr>X509KeyPair = (\<lambda>c k. if c = ''CERT'' \<and> k = ''KEY'' then None
                             else Some (PlainError ''tls: failed to find any PEM data'')),
      GenerateSelfSignedCert = (\<lambda>hosts. Inr \<lparr>PrivateKey = ''KEY'', Cert = ''CERT''\<rparr>)\<rparr>"

definition world0 :: world where
  "world0 = \<lparr>files = Map.empty, umask = 18, rfault = Map.empty, wfault = Map.empty, events = []\<rparr>"

definition http0 :: HTTP where
  "http0 = NewHTTP \<lparr>Listen = '':8081'', KeyFile = [], CertFile = [],
                     Hostname = ''bot.example.com'', Insecure = False\<rparr>"

text \<open>
  Variations of it. File modes are octal \<open>0644\<close> (420) and \<open>0600\<close> (384).
  \<open>world_corrupt\<close>: the default certificate file is present and is no certificate,
  the key file is present. \<open>world_halfpair\<close>: the same certificate file and no key
  file. \<open>env_nogen\<close>: the generator fails.
  \<open>world_mismatch\<close> and \<open>world_valid\<close>: an explicitly configured pair whose key
  does not, or does, belong to the certificate. \<open>world_readonly\<close>: nothing can be
  created. \<open>world_full\<close>: the disk fills up while the certificate is written.
  \<open>world_nocreate\<close>: a stale key file is left and can be overwritten, but no new
  file can be created.
\<close>

definition world_corrupt :: world where
  "world_corrupt =
     world0\<lparr>files := [''/d/auth.crt'' \<mapsto> \<lparr>content = ''not a certificate'', mode = 420\<rparr>,
                      ''/d/auth.key'' \<mapsto> \<lparr>content = ''KEY'', mode = 384\<rparr>]\<rparr>"

definition http_explicit :: HTTP where
  "http_explicit = http0\<lparr>CertFile := ''/tls/site.crt'', KeyFile := ''/tls/site.key''\<rparr>"

definition world_mismatch :: world where
  "world_mismatch =
     world0\<lparr>files := [''/tls/site.crt'' \<mapsto> \<lparr>content = ''CERT'', mode = 420\<rparr>,
                      ''/tls/site.key'' \<mapsto> \<lparr>content = ''OTHER KEY'', mode = 384\<rparr>]\<rparr>"

definition world_valid :: world where
  "world_valid =
     world0\<lparr>files := [''/tls/site.crt'' \<mapsto> \<lparr>content = ''CERT'', mode = 420\<rparr>,
                      ''/tls/site.key'' \<mapsto> \<lparr>content = ''KEY'', mode = 384\<rparr>]\<rparr>"

definition world_halfpair :: world where
  "world_halfpair =
     world0\<lparr>files := [''/d/auth.crt'' \<mapsto> \<lparr>content = ''not a certificate'', mode = 420\<rparr>]\<rparr>"

definition env_nogen :: crypto_env where
  "env_nogen =
     env0\<lparr>GenerateSelfSignedCert := (\<lambda>hosts. Inl (PlainError ''rsa: key generation failed''))\<rparr>"

definition world_readonly :: world where
  "world_readonly = world0\<lparr>wfault := (\<lambda>p. Some (OpenFails EACCES))\<rparr>"

definition world_full :: world where
  "world_full = world0\<lparr>wfault := [''/d/auth.crt'' \<mapsto> WriteFails ENOSPC 2]\<rparr>"

definition world_nocreate :: world where
  "world_nocreate =
     world0\<lparr>files := [''/d/auth.key'' \<mapsto> \<lparr>content = ''STALE KEY'', mode = 420\<rparr>],
            wfault := [''/d/auth.crt'' \<mapsto> OpenFails EACCES]\<rparr>"

section \<open>Properties\<close>

lemmas model_defs = EnsureCert_def generate_and_persist_def LoadX509KeyPair_def ReadFile_def
  WriteFile_def store_def generate_def emit_def log_Warningf_def log_Info_def new_events_def Let_def

lemmas fixture_defs = env0_def world0_def http0_def NewHTTP_def world_corrupt_def http_explicit_def
  world_mismatch_def world_valid_def world_readonly_def world_full_def world_nocreate_def
  world_halfpair_def env_nogen_def

subsection \<open>Auxiliary facts\<close>

lemma trace_Wrap_Some:
  "trace_Wrap (Some e) args \<noteq> None \<and> is_wrapped (trace_Wrap (Some e) args)"
  by (cases e) simp_all


lemma reads_only:
  "list_all is_read evs \<Longrightarrow> \<not> list_ex is_write evs \<and> \<not> list_ex is_generate evs"
  by (induction evs) (auto elim!: is_read.elims)



text \<open>A load only reads: it leaves the world as it is and appends reads to the log.\<close>

lemma LoadX509KeyPair_frame:
  "LoadX509KeyPair env c k w = (r, w') \<Longrightarrow>
     \<exists>evs. w' = w\<lparr>events := events w @ evs\<rparr> \<and> list_all is_read evs \<and> evs \<noteq> []
        \<and> (r = None \<longrightarrow> evs = [EvReadFile c, EvReadFile k])"
  by (auto simp: LoadX509KeyPair_def ReadFile_def emit_def Let_def split: option.splits)

text \<open>Its result does not depend on the log.\<close>

lemma LoadX509KeyPair_events_irrelevant:
  "fst (LoadX509KeyPair env c k (w\<lparr>events := es\<rparr>)) = fst (LoadX509KeyPair env c k w)"
  by (auto simp: LoadX509KeyPair_def ReadFile_def emit_def Let_def split: option.splits)

lemma LoadX509KeyPair_missing_cert:
  "files w c = None \<Longrightarrow> rfault w c = None \<Longrightarrow>
   LoadX509KeyPair env c k w = (Some (PathError ''open'' c ENOENT), emit (EvReadFile c) w)"
  by (simp add: LoadX509KeyPair_def ReadFile_def Let_def)

lemma LoadX509KeyPair_missing_key:
  "files w c = Some fc \<Longrightarrow> rfault w c = None \<Longrightarrow> files w k = None \<Longrightarrow> rfault w k = None \<Longrightarrow>
   fst (LoadX509KeyPair env c k w) = Some (PathError ''open'' k ENOENT)"
  by (simp add: LoadX509KeyPair_def ReadFile_def emit_def Let_def)

lemma LoadX509KeyPair_both_present:
  "files w c = Some fc \<Longrightarrow> rfault w c = None \<Longrightarrow> files w k = Some fk \<Longrightarrow> rfault w k = None \<Longrightarrow>
   fst (LoadX509KeyPair env c k w) = X509KeyPair env (content fc) (content fk)"
  by (simp add: LoadX509KeyPair_def ReadFile_def emit_def Let_def)

text \<open>The fallback branch of \<open>EnsureCert\<close>, by the outcome of its load.\<close>

lemma default_branch:
  assumes "\<not> Insecure h" and "CertFile h = []"
    and "LoadX509KeyPair env (defaultPath @ ''.crt'') (defaultPath @ ''.key'')
           (log_Warningf ''No TLS Keys provided, using self signed certificate.'' w) = (lerr, w1)"
  shows "EnsureCert env defaultPath h w =
     (let h2 = h\<lparr>CertFile := defaultPath @ ''.crt'', KeyFile := defaultPath @ ''.key''\<rparr> in
      case lerr of
        None \<Rightarrow> (None, h2, w1)
      | Some e \<Rightarrow>
          if \<not> IsNotExist e
          then (trace_Wrap (Some e) [''unrecognized error reading certs''], h2, w1)
          else generate_and_persist env h2 w1)"
  using assms by (simp add: EnsureCert_def Let_def split: option.splits)

lemma generate_and_persist_events:
  "generate_and_persist env h w = (err, h', w') \<Longrightarrow>
     h' = h \<and>
     (\<exists>evs. events w' = events w @
          EvLog Warning (''Generating self signed key and cert to ''
                           @ KeyFile h @ '' '' @ CertFile h @ ''.'')
          # EvGenerate [Hostname h, ''localhost''] # evs
        \<and> list_all is_write evs \<and> (err = None \<longrightarrow> evs \<noteq> []))"
  using trace_Wrap_Some
  by (auto simp: generate_and_persist_def generate_def WriteFile_def store_def emit_def
        log_Warningf_def Let_def
      split: sum.splits option.splits wfail.splits prod.splits)

lemma generation_entered:
  assumes "\<not> Insecure h" and "CertFile h = []"
    and "files w (defaultPath @ ''.crt'') = None" and "rfault w (defaultPath @ ''.crt'') = None"
  shows "EnsureCert env defaultPath h w =
     generate_and_persist env
       (h\<lparr>CertFile := defaultPath @ ''.crt'', KeyFile := defaultPath @ ''.key''\<rparr>)
       (emit (EvReadFile (defaultPath @ ''.crt''))
          (log_Warningf ''No TLS Keys provided, using self signed certificate.'' w))"
proof -
  let ?w0 = "log_Warningf ''No TLS Keys provided, using self signed certificate.'' w"
  have "files ?w0 (defaultPath @ ''.crt'') = None" "rfault ?w0 (defaultPath @ ''.crt'') = None"
    using assms(3,4) by (simp_all add: log_Warningf_def emit_def)
  from LoadX509KeyPair_missing_cert [OF this] default_branch [OF assms(1,2)]
  show ?thesis by (simp add: Let_def)
qed

lemma generation_state:
  assumes "\<not> Insecure h" and "CertFile h = []"
    and "files w (defaultPath @ ''.crt'') = None" and "files w (defaultPath @ ''.key'') = None"
    and "rfault w (defaultPath @ ''.crt'') = None"
    and "GenerateSelfSignedCert env [Hostname h, ''localhost''] = Inr creds"
    and "wfault w (defaultPath @ ''.key'') = None" and "wfault w (defaultPath @ ''.crt'') = None"
  shows "EnsureCert env defaultPath h w =
     (None, h\<lparr>CertFile := defaultPath @ ''.crt'', KeyFile := defaultPath @ ''.key''\<rparr>,
      w\<lparr>files := (files w)
           (defaultPath @ ''.key'' \<mapsto>
              \<lparr>content = PrivateKey creds, mode = perm_0600 AND NOT (umask w)\<rparr>,
            defaultPath @ ''.crt'' \<mapsto>
              \<lparr>content = Cert creds, mode = perm_0600 AND NOT (umask w)\<rparr>),
         events := events w @
           [EvLog Warning ''No TLS Keys provided, using self signed certificate.'',
            EvReadFile (defaultPath @ ''.crt''),
            EvLog Warning (''Generating self signed key and cert to '' @ (defaultPath @ ''.key'')
                             @ '' '' @ (defaultPath @ ''.crt'') @ ''.''),
            EvGenerate [Hostname h, ''localhost''],
            EvWriteFile (defaultPath @ ''.key'') (PrivateKey creds) perm_0600,
            EvWriteFile (defaultPath @ ''.crt'') (Cert creds) perm_0600]\<rparr>)"
  using assms(3-8)
  unfolding generation_entered [OF assms(1,2,3,5)]
  by (simp add: generate_and_persist_def generate_def WriteFile_def store_def emit_def
        log_Warningf_def Let_def)

lemma reuse_state:
  assumes "\<not> Insecure h" and "CertFile h = []"
    and "files w (defaultPath @ ''.crt'') = Some fc" and "files w (defaultPath @ ''.key'') = Some fk"
    and "rfault w (defaultPath @ ''.crt'') = None" and "rfault w (defaultPath @ ''.key'') = None"
    and "X509KeyPair env (content fc) (content fk) = None"
  shows "EnsureCert env defaultPath h w =
     (None, h\<lparr>CertFile := defaultPath @ ''.crt'', KeyFile := defaultPath @ ''.key''\<rparr>,
      w\<lparr>events := events w @
           [EvLog Warning ''No TLS Keys provided, using self signed certificate.'',
            EvReadFile (defaultPath @ ''.crt''), EvReadFile (defaultPath @ ''.key'')]\<rparr>)"
  using assms
  by (simp add: EnsureCert_def LoadX509KeyPair_def ReadFile_def emit_def log_Warningf_def Let_def)

lemma explicit_state:
  assumes "\<not> Insecure h" and "CertFile h \<noteq> []"
    and "files w (CertFile h) = Some fc" and "files w (KeyFile h) = Some fk"
    and "rfault w (CertFile h) = None" and "rfault w (KeyFile h) = None"
    and "X509KeyPair env (content fc) (content fk) = None"
  shows "EnsureCert env defaultPath h w =
     (None, h, w\<lparr>events := events w @ [EvReadFile (CertFile h), EvReadFile (KeyFile h)]\<rparr>)"
  using assms
  by (simp add: EnsureCert_def LoadX509KeyPair_def ReadFile_def emit_def Let_def)

subsection \<open>Serving\<close>

text \<open>
  C1: \<open>ListenAndServe\<close> returns nil exactly when the serve loop ended with the sentinel
  \<open>http.ErrServerClosed\<close>; for every other outcome of the loop it returns the
  outcome wrapped by \<open>trace.Wrap\<close>, which is not nil.
\<close>

theorem ListenAndServe_result:
  "(fst (ListenAndServe outcome ctx h w) = None) = (outcome = ErrServerClosed) \<and>
   (outcome \<noteq> ErrServerClosed \<longrightarrow>
      fst (ListenAndServe outcome ctx h w) = trace_Wrap (Some outcome) [] \<and>
      is_wrapped (fst (ListenAndServe outcome ctx h w)))"
  using trace_Wrap_Some [of outcome "[]"] by (simp add: ListenAndServe_def Let_def)

text \<open>A server closed by its scope returns nil; an occupied address is reported.\<close>

theorem ListenAndServe_result_witness:
  "fst (ListenAndServe ErrServerClosed 7 http0 world0) = None \<and>
   fst (ListenAndServe (OpError ''listen'' EADDRINUSE) 7 http0 world0)
     = Some (TraceErr (OpError ''listen'' EADDRINUSE) [])"
  using ListenAndServe_result [of ErrServerClosed 7 http0 world0]
    ListenAndServe_result [of "OpError ''listen'' EADDRINUSE" 7 http0 world0]
  by simp

subsection \<open>Resolving the certificate: the paths that do not generate\<close>

text \<open>
  C2, as amended: without explicit files, when the load of the candidate pair fails
  with an error that is not a does-not-exist error (as when both files are present
  and readable and the pair does not parse), \<open>EnsureCert\<close> returns that error
  wrapped with the message "unrecognized error reading certs", which is not nil; it
  neither writes nor generates, and the files are as before. The generation branch
  is entered only when the load failed with a does-not-exist error, and then it is.
  The load fails that way as soon as the certificate file is missing, and also when
  the certificate file is present and the key file is missing: a file that is
  present without its partner is outside the guarantee.
\<close>

theorem EnsureCert_default_load_failure:
  assumes "\<not> Insecure h" and "CertFile h = []"
    and "EnsureCert env defaultPath h w = (err, h', w')"
    and "fst (LoadX509KeyPair env (defaultPath @ ''.crt'') (defaultPath @ ''.key'') w) = lerr"
  shows "(\<forall>e. lerr = Some e \<and> \<not> IsNotExist e \<longrightarrow>
            err = trace_Wrap (Some e) [''unrecognized error reading certs''] \<and>
            err \<noteq> None \<and> is_wrapped err \<and>
            files w' = files w \<and> \<not> list_ex is_write (new_events w w') \<and>
            \<not> list_ex is_generate (new_events w w')) \<and>
         (list_ex is_generate (new_events w w') = (\<exists>e. lerr = Some e \<and> IsNotExist e)) \<and>
         (list_ex is_write (new_events w w') \<longrightarrow> (\<exists>e. lerr = Some e \<and> IsNotExist e)) \<and>
         (\<forall>fc fk. files w (defaultPath @ ''.crt'') = Some fc \<and> rfault w (defaultPath @ ''.crt'') = None \<and>
                  files w (defaultPath @ ''.key'') = Some fk \<and> rfault w (defaultPath @ ''.key'') = None
            \<longrightarrow> lerr = X509KeyPair env (content fc) (content fk)) \<and>
         (files w (defaultPath @ ''.crt'') = None \<and> rfault w (defaultPath @ ''.crt'') = None
            \<longrightarrow> lerr = Some (PathError ''open'' (defaultPath @ ''.crt'') ENOENT)) \<and>
         (\<forall>fc. files w (defaultPath @ ''.crt'') = Some fc \<and> rfault w (defaultPath @ ''.crt'') = None \<and>
               files w (defaultPath @ ''.key'') = None \<and> rfault w (defaultPath @ ''.key'') = None
            \<longrightarrow> lerr = Some (PathError ''open'' (defaultPath @ ''.key'') ENOENT))"
proof -
  let ?c = "defaultPath @ ''.crt''" and ?k = "defaultPath @ ''.key''"
  let ?w0 = "log_Warningf ''No TLS Keys provided, using self signed certificate.'' w"
  obtain r w1 where l: "LoadX509KeyPair env ?c ?k ?w0 = (r, w1)"
    by (cases "LoadX509KeyPair env ?c ?k ?w0")
  have "fst (LoadX509KeyPair env ?c ?k ?w0) = lerr"
    using assms(4) by (simp add: log_Warningf_def emit_def LoadX509KeyPair_events_irrelevant)
  with l have r: "r = lerr" by simp
  from LoadX509KeyPair_frame [OF l] obtain evs
    where w1: "w1 = ?w0\<lparr>events := events ?w0 @ evs\<rparr>" and evs: "list_all is_read evs" by blast
  note ec = default_branch [OF assms(1,2) l]
  have nowrite: "\<not> list_ex is_write evs" "\<not> list_ex is_generate evs"
    using evs reads_only by blast+
  have paths: "(\<forall>fc fk. files w ?c = Some fc \<and> rfault w ?c = None \<and>
                  files w ?k = Some fk \<and> rfault w ?k = None
            \<longrightarrow> lerr = X509KeyPair env (content fc) (content fk)) \<and>
         (files w ?c = None \<and> rfault w ?c = None \<longrightarrow> lerr = Some (PathError ''open'' ?c ENOENT)) \<and>
         (\<forall>fc. files w ?c = Some fc \<and> rfault w ?c = None \<and> files w ?k = None \<and> rfault w ?k = None
            \<longrightarrow> lerr = Some (PathError ''open'' ?k ENOENT))"
    using assms(4) LoadX509KeyPair_missing_cert [of w ?c env ?k]
      LoadX509KeyPair_missing_key [of w ?c _ ?k env] LoadX509KeyPair_both_present [of w ?c _ ?k _ env]
    by auto
  have main: "(\<forall>e. lerr = Some e \<and> \<not> IsNotExist e \<longrightarrow>
            err = trace_Wrap (Some e) [''unrecognized error reading certs''] \<and>
            err \<noteq> None \<and> is_wrapped err \<and>
            files w' = files w \<and> \<not> list_ex is_write (new_events w w') \<and>
            \<not> list_ex is_generate (new_events w w')) \<and>
         (list_ex is_generate (new_events w w') = (\<exists>e. lerr = Some e \<and> IsNotExist e)) \<and>
         (list_ex is_write (new_events w w') \<longrightarrow> (\<exists>e. lerr = Some e \<and> IsNotExist e))"
  proof (cases lerr)
    case None
    with ec assms(3) r have "w' = w1" by (simp add: Let_def)
    with None w1 nowrite show ?thesis
      by (simp add: new_events_def log_Warningf_def emit_def)
  next
    case (Some e)
    show ?thesis
    proof (cases "IsNotExist e")
      case True
      let ?h2 = "h\<lparr>CertFile := ?c, KeyFile := ?k\<rparr>"
      from ec assms(3) r Some True
      have g: "generate_and_persist env ?h2 w1 = (err, h', w')" by (simp add: Let_def)
      from generate_and_persist_events [OF g] obtain ws
        where "events w' = events w1 @
           EvLog Warning (''Generating self signed key and cert to ''
                            @ KeyFile ?h2 @ '' '' @ CertFile ?h2 @ ''.'')
             # EvGenerate [Hostname ?h2, ''localhost''] # ws" by auto
      with w1 have "list_ex is_generate (new_events w w')"
        by (simp add: new_events_def log_Warningf_def emit_def)
      with Some True show ?thesis by simp
    next
      case False
      with ec assms(3) r Some
      have "w' = w1" "err = trace_Wrap (Some e) [''unrecognized error reading certs'']"
        by (simp_all add: Let_def)
      with Some False w1 nowrite trace_Wrap_Some [of e] show ?thesis
        by (simp add: new_events_def log_Warningf_def emit_def)
    qed
  qed
  from main paths show ?thesis by blast
qed

text \<open>
  A certificate file that is present and does not parse, next to a key file: the
  call fails, the files stay. The same certificate file without a key file: the load
  reports the missing key, and the call generates.
\<close>

theorem EnsureCert_default_load_failure_witness:
  "\<not> Insecure http0 \<and> CertFile http0 = [] \<and>
   fst (LoadX509KeyPair env0 ''/d/auth.crt'' ''/d/auth.key'' world_corrupt)
     = Some (PlainError ''tls: failed to find any PEM data'') \<and>
   \<not> IsNotExist (PlainError ''tls: failed to find any PEM data'') \<and>
   fst (EnsureCert env0 ''/d/auth'' http0 world_corrupt)
     = Some (TraceErr (PlainError ''tls: failed to find any PEM data'')
               [''unrecognized error reading certs'']) \<and>
   files (snd (snd (EnsureCert env0 ''/d/auth'' http0 world_corrupt))) = files world_corrupt \<and>
   fst (LoadX509KeyPair env0 ''/d/auth.crt'' ''/d/auth.key'' world_halfpair)
     = Some (PathError ''open'' ''/d/auth.key'' ENOENT) \<and>
   list_ex is_generate
     (new_events world_halfpair (snd (snd (EnsureCert env0 ''/d/auth'' http0 world_halfpair))))"
proof -
  let ?run = "EnsureCert env0 ''/d/auth'' http0 world_corrupt"
  let ?half = "EnsureCert env0 ''/d/auth'' http0 world_halfpair"
  have h1: "\<not> Insecure http0" and h2: "CertFile http0 = []"
    by (simp_all add: fixture_defs)
  have h3: "?run = (fst ?run, fst (snd ?run), snd (snd ?run))"
    and k3: "?half = (fst ?half, fst (snd ?half), snd (snd ?half))"
    by simp_all
  have h4: "fst (LoadX509KeyPair env0 (''/d/auth'' @ ''.crt'') (''/d/auth'' @ ''.key'') world_corrupt)
     = Some (PlainError ''tls: failed to find any PEM data'')"
    and k4: "fst (LoadX509KeyPair env0 (''/d/auth'' @ ''.crt'') (''/d/auth'' @ ''.key'') world_halfpair)
     = Some (PathError ''open'' ''/d/auth.key'' ENOENT)"
    by (simp_all add: model_defs fixture_defs)
  from EnsureCert_default_load_failure [OF h1 h2 h3 h4]
  have 1: "fst ?run = Some (TraceErr (PlainError ''tls: failed to find any PEM data'')
               [''unrecognized error reading certs''])"
    "files (snd (snd ?run)) = files world_corrupt"
    by simp_all
  from EnsureCert_default_load_failure [OF h1 h2 k3 k4]
  have 2: "list_ex is_generate (new_events world_halfpair (snd (snd ?half)))"
    by simp
  from h1 h2 h4 k4 1 2 show ?thesis by simp
qed

text \<open>
  C2 as stated, for a certificate file that is present and corrupt, fails when the
  key file is missing: the load returns the does-not-exist error of the key,
  \<open>EnsureCert\<close> generates, replaces the content of the certificate file and
  returns nil.
\<close>

theorem EnsureCert_default_load_failure_counterexample:
  "\<not> Insecure http0 \<and> CertFile http0 = [] \<and>
   files world_halfpair ''/d/auth.crt'' = Some \<lparr>content = ''not a certificate'', mode = 420\<rparr> \<and>
   X509KeyPair env0 ''not a certificate'' ''KEY'' \<noteq> None \<and>
   fst (EnsureCert env0 ''/d/auth'' http0 world_halfpair) = None \<and>
   filter is_write (new_events world_halfpair (snd (snd (EnsureCert env0 ''/d/auth'' http0 world_halfpair)))) =
     [EvWriteFile ''/d/auth.key'' ''KEY'' perm_0600, EvWriteFile ''/d/auth.crt'' ''CERT'' perm_0600] \<and>
   files (snd (snd (EnsureCert env0 ''/d/auth'' http0 world_halfpair))) ''/d/auth.crt''
     = Some \<lparr>content = ''CERT'', mode = 420\<rparr>"
  by (simp add: model_defs fixture_defs)

text \<open>
  C4: with an explicit certificate file, \<open>EnsureCert\<close> returns what the load of the
  configured pair returns, nil or the error itself, not wrapped; the configuration
  and the files are as before, and the call does nothing but read: it neither
  writes nor generates.
\<close>

theorem EnsureCert_explicit:
  assumes "\<not> Insecure h" and "CertFile h \<noteq> []"
    and "EnsureCert env defaultPath h w = (err, h', w')"
  shows "err = fst (LoadX509KeyPair env (CertFile h) (KeyFile h) w) \<and> h' = h \<and>
         files w' = files w \<and> list_all is_read (new_events w w') \<and>
         \<not> list_ex is_write (new_events w w') \<and> \<not> list_ex is_generate (new_events w w')"
proof -
  obtain r w1 where l: "LoadX509KeyPair env (CertFile h) (KeyFile h) w = (r, w1)"
    by (cases "LoadX509KeyPair env (CertFile h) (KeyFile h) w")
  from assms l have e: "err = r" "h' = h" "w' = w1"
    by (simp_all add: EnsureCert_def)
  from LoadX509KeyPair_frame [OF l] obtain evs
    where w1: "w1 = w\<lparr>events := events w @ evs\<rparr>" and evs: "list_all is_read evs" by blast
  from e w1 have n: "new_events w w' = evs"
    by (simp add: new_events_def)
  from e l w1 evs reads_only [OF evs] show ?thesis
    unfolding n by simp
qed

text \<open>A key that does not belong to the certificate: the parser's error comes back as it is.\<close>

theorem EnsureCert_explicit_witness:
  "\<not> Insecure http_explicit \<and> CertFile http_explicit \<noteq> [] \<and>
   EnsureCert env0 ''/d/auth'' http_explicit world_mismatch =
     (Some (PlainError ''tls: failed to find any PEM data''), http_explicit,
      world_mismatch\<lparr>events := [EvReadFile ''/tls/site.crt'', EvReadFile ''/tls/site.key'']\<rparr>) \<and>
   files (world_mismatch\<lparr>events := [EvReadFile ''/tls/site.crt'', EvReadFile ''/tls/site.key'']\<rparr>)
     = files world_mismatch"
proof -
  have h1: "\<not> Insecure http_explicit" and h2: "CertFile http_explicit \<noteq> []"
    by (simp_all add: fixture_defs)
  have h3: "EnsureCert env0 ''/d/auth'' http_explicit world_mismatch =
     (Some (PlainError ''tls: failed to find any PEM data''), http_explicit,
      world_mismatch\<lparr>events := [EvReadFile ''/tls/site.crt'', EvReadFile ''/tls/site.key'']\<rparr>)"
    by (simp add: model_defs fixture_defs)
  from EnsureCert_explicit [OF h1 h2 h3] h1 h2 h3 show ?thesis by simp
qed

text \<open>
  C5: with \<open>Insecure\<close> set, \<open>EnsureCert\<close> returns nil at once: the log gets no entry
  (no file is read or written), the world and the configuration are as before,
  whatever the other fields and the default path are.
\<close>

theorem EnsureCert_insecure:
  "Insecure h \<Longrightarrow> EnsureCert env defaultPath h w = (None, h, w)"
  by (simp add: EnsureCert_def)

text \<open>Insecure mode over a broken explicit pair: nothing is looked at.\<close>

theorem EnsureCert_insecure_witness:
  "Insecure (http_explicit\<lparr>Insecure := True\<rparr>) \<and>
   EnsureCert env0 ''/d/auth'' (http_explicit\<lparr>Insecure := True\<rparr>) world_mismatch
     = (None, http_explicit\<lparr>Insecure := True\<rparr>, world_mismatch)"
  using EnsureCert_insecure [of "http_explicit\<lparr>Insecure := True\<rparr>" env0 "''/d/auth''" world_mismatch]
  by simp

subsection \<open>Resolving the certificate: generation\<close>




text \<open>
  C6, as amended: under the conditions of the generation above, and when the TLS
  library accepts the generated pair and the key path is readable, a first call
  returns nil and creates exactly the two candidate files; a second call with the
  same configuration on the resulting world returns nil again, ends with the same
  configuration, leaves the files as they are, and only logs the warning and reads
  the two files: no generation, no write. The same holds when the second call is
  made on the wrapper as the first call left it, with the candidate paths filled in.
\<close>

theorem fallback_idempotent:
  assumes "\<not> Insecure h" and "CertFile h = []"
    and "files w (defaultPath @ ''.crt'') = None" and "files w (defaultPath @ ''.key'') = None"
    and "rfault w (defaultPath @ ''.crt'') = None" and "rfault w (defaultPath @ ''.key'') = None"
    and "GenerateSelfSignedCert env [Hostname h, ''localhost''] = Inr creds"
    and "X509KeyPair env (Cert creds) (PrivateKey creds) = None"
    and "wfault w (defaultPath @ ''.key'') = None" and "wfault w (defaultPath @ ''.crt'') = None"
    and "EnsureCert env defaultPath h w = (err1, h1, w1)"
    and "EnsureCert env defaultPath h w1 = (err2, h2, w2)"
  shows "err1 = None \<and>
     files w1 = (files w)
       (defaultPath @ ''.key'' \<mapsto>
          \<lparr>content = PrivateKey creds, mode = perm_0600 AND NOT (umask w)\<rparr>,
        defaultPath @ ''.crt'' \<mapsto>
          \<lparr>content = Cert creds, mode = perm_0600 AND NOT (umask w)\<rparr>) \<and>
     err2 = None \<and> h2 = h1 \<and> files w2 = files w1 \<and>
     new_events w1 w2 =
       [EvLog Warning ''No TLS Keys provided, using self signed certificate.'',
        EvReadFile (defaultPath @ ''.crt''), EvReadFile (defaultPath @ ''.key'')] \<and>
     EnsureCert env defaultPath h1 w1 =
       (None, h1, w1\<lparr>events := events w1 @
                       [EvReadFile (defaultPath @ ''.crt''), EvReadFile (defaultPath @ ''.key'')]\<rparr>)"
proof -
  let ?fk = "\<lparr>content = PrivateKey creds, mode = perm_0600 AND NOT (umask w)\<rparr>"
  let ?fc = "\<lparr>content = Cert creds, mode = perm_0600 AND NOT (umask w)\<rparr>"
  note first = generation_state [OF assms(1,2,3,4,5,7,9,10)]
  from first assms(11) have err1: "err1 = None"
    and h1: "h1 = h\<lparr>CertFile := defaultPath @ ''.crt'', KeyFile := defaultPath @ ''.key''\<rparr>"
    and f1: "files w1 = (files w)(defaultPath @ ''.key'' \<mapsto> ?fk, defaultPath @ ''.crt'' \<mapsto> ?fc)"
    and r1: "rfault w1 = rfault w"
    by auto
  have c: "files w1 (defaultPath @ ''.crt'') = Some ?fc"
    and k: "files w1 (defaultPath @ ''.key'') = Some ?fk"
    by (simp_all add: f1)
  have rc: "rfault w1 (defaultPath @ ''.crt'') = None"
    and rk: "rfault w1 (defaultPath @ ''.key'') = None"
    using assms(5,6) r1 by simp_all
  have x: "X509KeyPair env (content ?fc) (content ?fk) = None"
    using assms(8) by simp
  note second = reuse_state [OF assms(1,2) c k rc rk x]
  have ns: "\<not> Insecure h1" "CertFile h1 \<noteq> []"
    "files w1 (CertFile h1) = Some ?fc" "files w1 (KeyFile h1) = Some ?fk"
    "rfault w1 (CertFile h1) = None" "rfault w1 (KeyFile h1) = None"
    using assms(1) c k rc rk by (simp_all add: h1)
  note again = explicit_state [OF ns x, of defaultPath]
  from second assms(12) have "err2 = None" "h2 = h1" "files w2 = files w1"
    "new_events w1 w2 =
       [EvLog Warning ''No TLS Keys provided, using self signed certificate.'',
        EvReadFile (defaultPath @ ''.crt''), EvReadFile (defaultPath @ ''.key'')]"
    by (auto simp: h1 new_events_def)
  with err1 f1 again show ?thesis by (simp add: h1)
qed

text \<open>Two calls on an empty data directory: the second finds what the first stored.\<close>

theorem fallback_idempotent_witness:
  "\<not> Insecure http0 \<and> CertFile http0 = [] \<and>
   files world0 ''/d/auth.crt'' = None \<and> files world0 ''/d/auth.key'' = None \<and>
   fst (EnsureCert env0 ''/d/auth'' http0 world0) = None \<and>
   fst (EnsureCert env0 ''/d/auth'' http0 (snd (snd (EnsureCert env0 ''/d/auth'' http0 world0))))
     = None \<and>
   files (snd (snd (EnsureCert env0 ''/d/auth'' http0
                      (snd (snd (EnsureCert env0 ''/d/auth'' http0 world0))))))
     = files (snd (snd (EnsureCert env0 ''/d/auth'' http0 world0)))"
proof -
  let ?first = "EnsureCert env0 ''/d/auth'' http0 world0"
  let ?second = "EnsureCert env0 ''/d/auth'' http0 (snd (snd ?first))"
  have h1: "\<not> Insecure http0" and h2: "CertFile http0 = []"
    by (simp_all add: fixture_defs)
  have h3: "files world0 (''/d/auth'' @ ''.crt'') = None"
    and h4: "files world0 (''/d/auth'' @ ''.key'') = None"
    and h5: "rfault world0 (''/d/auth'' @ ''.crt'') = None"
    and h6: "rfault world0 (''/d/auth'' @ ''.key'') = None"
    and h9: "wfault world0 (''/d/auth'' @ ''.key'') = None"
    and h10: "wfault world0 (''/d/auth'' @ ''.crt'') = None"
    by (simp_all add: fixture_defs)
  have h7: "GenerateSelfSignedCert env0 [Hostname http0, ''localhost'']
              = Inr \<lparr>PrivateKey = ''KEY'', Cert = ''CERT''\<rparr>"
    by (simp add: fixture_defs)
  have h8: "X509KeyPair env0 (Cert \<lparr>PrivateKey = ''KEY'', Cert = ''CERT''\<rparr>)
              (PrivateKey \<lparr>PrivateKey = ''KEY'', Cert = ''CERT''\<rparr>) = None"
    by (simp add: fixture_defs)
  have h11: "?first = (fst ?first, fst (snd ?first), snd (snd ?first))"
    and h12: "?second = (fst ?second, fst (snd ?second), snd (snd ?second))"
    by simp_all
  from fallback_idempotent [OF h1 h2 h3 h4 h5 h6 h7 h8 h9 h10 h11 h12] h1 h2 h3 h4
  show ?thesis by simp
qed

text \<open>
  C6 as stated fails where the disk fills up while the certificate is written: the
  first call on a directory without candidate files returns an error, and the second
  call, which now finds a truncated certificate, returns an error as well.
\<close>

theorem fallback_idempotent_counterexample:
  "\<not> Insecure http0 \<and> CertFile http0 = [] \<and>
   files world_full ''/d/auth.crt'' = None \<and> files world_full ''/d/auth.key'' = None \<and>
   fst (EnsureCert env0 ''/d/auth'' http0 world_full)
     = Some (TraceErr (PathError ''write'' ''/d/auth.crt'' ENOSPC) [''error writing cert PEM'']) \<and>
   fst (EnsureCert env0 ''/d/auth'' http0 (snd (snd (EnsureCert env0 ''/d/auth'' http0 world_full))))
     = Some (TraceErr (PlainError ''tls: failed to find any PEM data'')
               [''unrecognized error reading certs''])"
  by (simp add: model_defs fixture_defs)

text \<open>
  C10: in the generation branch the key file is written before the certificate file.
  When the write of the key succeeds and the write of the certificate fails,
  \<open>EnsureCert\<close> returns the wrapped error of the second write, the key file holds the
  generated key, and \<open>CertFile\<close> and \<open>KeyFile\<close> are the candidate paths: nothing is
  rolled back.
\<close>

theorem cert_write_fails:
  assumes "\<not> Insecure h" and "CertFile h = []"
    and "fst (LoadX509KeyPair env (defaultPath @ ''.crt'') (defaultPath @ ''.key'') w) = Some e"
    and "IsNotExist e"
    and "GenerateSelfSignedCert env [Hostname h, ''localhost''] = Inr creds"
    and "wfault w (defaultPath @ ''.key'') = None"
    and "wfault w (defaultPath @ ''.crt'') = Some f"
    and "EnsureCert env defaultPath h w = (err, h', w')"
  shows "filter is_write (new_events w w') =
           [EvWriteFile (defaultPath @ ''.key'') (PrivateKey creds) perm_0600,
            EvWriteFile (defaultPath @ ''.crt'') (Cert creds) perm_0600] \<and>
         (\<exists>pe. err = Some (TraceErr pe [''error writing cert PEM''])) \<and>
         (\<exists>m. files w' (defaultPath @ ''.key'')
                = Some \<lparr>content = PrivateKey creds, mode = m\<rparr>) \<and>
         CertFile h' = defaultPath @ ''.crt'' \<and> KeyFile h' = defaultPath @ ''.key''"
proof -
  let ?c = "defaultPath @ ''.crt''" and ?k = "defaultPath @ ''.key''"
  let ?h2 = "h\<lparr>CertFile := ?c, KeyFile := ?k\<rparr>"
  let ?w0 = "log_Warningf ''No TLS Keys provided, using self signed certificate.'' w"
  obtain r w1 where l: "LoadX509KeyPair env ?c ?k ?w0 = (r, w1)"
    by (cases "LoadX509KeyPair env ?c ?k ?w0")
  have "fst (LoadX509KeyPair env ?c ?k ?w0) = Some e"
    using assms(3) by (simp add: log_Warningf_def emit_def LoadX509KeyPair_events_irrelevant)
  with l have r: "r = Some e" by simp
  from LoadX509KeyPair_frame [OF l] obtain evs
    where w1: "w1 = w\<lparr>events := events w @
                  EvLog Warning ''No TLS Keys provided, using self signed certificate.'' # evs\<rparr>"
      and evs: "list_all is_read evs"
    by (auto simp: log_Warningf_def emit_def)
  from default_branch [OF assms(1,2) l] r assms(4,8)
  have g: "generate_and_persist env ?h2 w1 = (err, h', w')" by (simp add: Let_def)
  have nw: "filter is_write evs = []"
    using evs reads_only [of evs] by (simp add: filter_empty_conv list_ex_iff)
  show ?thesis
    using g assms(5,6,7) nw unfolding w1
    by (cases f)
      (auto simp: generate_and_persist_def generate_def WriteFile_def store_def emit_def
         log_Warningf_def new_events_def Let_def)
qed

text \<open>
  A stale key file that can be overwritten in a directory where nothing can be
  created: the key is replaced, the certificate is not written, the call fails.
\<close>

theorem cert_write_fails_witness:
  "\<not> Insecure http0 \<and> CertFile http0 = [] \<and>
   fst (LoadX509KeyPair env0 ''/d/auth.crt'' ''/d/auth.key'' world_nocreate)
     = Some (PathError ''open'' ''/d/auth.crt'' ENOENT) \<and>
   wfault world_nocreate ''/d/auth.key'' = None \<and>
   wfault world_nocreate ''/d/auth.crt'' = Some (OpenFails EACCES) \<and>
   filter is_write
       (new_events world_nocreate (snd (snd (EnsureCert env0 ''/d/auth'' http0 world_nocreate)))) =
     [EvWriteFile ''/d/auth.key'' ''KEY'' perm_0600, EvWriteFile ''/d/auth.crt'' ''CERT'' perm_0600] \<and>
   (\<exists>pe. fst (EnsureCert env0 ''/d/auth'' http0 world_nocreate)
            = Some (TraceErr pe [''error writing cert PEM''])) \<and>
   (\<exists>m. files (snd (snd (EnsureCert env0 ''/d/auth'' http0 world_nocreate))) ''/d/auth.key''
            = Some \<lparr>content = ''KEY'', mode = m\<rparr>) \<and>
   CertFile (fst (snd (EnsureCert env0 ''/d/auth'' http0 world_nocreate))) = ''/d/auth.crt'' \<and>
   KeyFile (fst (snd (EnsureCert env0 ''/d/auth'' http0 world_nocreate))) = ''/d/auth.key''"
proof -
  let ?run = "EnsureCert env0 ''/d/auth'' http0 world_nocreate"
  have h1: "\<not> Insecure http0" and h2: "CertFile http0 = []"
    by (simp_all add: fixture_defs)
  have h3: "fst (LoadX509KeyPair env0 (''/d/auth'' @ ''.crt'') (''/d/auth'' @ ''.key'') world_nocreate)
              = Some (PathError ''open'' ''/d/auth.crt'' ENOENT)"
    by (simp add: model_defs fixture_defs)
  have h4: "IsNotExist (PathError ''open'' ''/d/auth.crt'' ENOENT)"
    by simp
  have h5: "GenerateSelfSignedCert env0 [Hostname http0, ''localhost'']
              = Inr \<lparr>PrivateKey = ''KEY'', Cert = ''CERT''\<rparr>"
    by (simp add: fixture_defs)
  have h6: "wfault world_nocreate (''/d/auth'' @ ''.key'') = None"
    and h7: "wfault world_nocreate (''/d/auth'' @ ''.crt'') = Some (OpenFails EACCES)"
    by (simp_all add: fixture_defs)
  have h8: "?run = (fst ?run, fst (snd ?run), snd (snd ?run))"
    by simp
  from cert_write_fails [OF h1 h2 h3 h4 h5 h6 h7 h8] h1 h2 h3 h6 h7
  show ?thesis by simp
qed

subsection \<open>What a successful resolution guarantees\<close>




subsection \<open>What the operations do to the configuration\<close>

text \<open>
  C9, as amended: \<open>EnsureCert\<close> leaves the wrapper as it is in insecure mode and with
  an explicit certificate file; on the fallback path it sets \<open>CertFile\<close> and
  \<open>KeyFile\<close> to the candidate paths and changes nothing else, whatever its result.
  \<open>ListenAndServe\<close> changes no field of the configuration, \<open>Shutdown\<close> and
  \<open>ShutdownWithTimeout\<close> change nothing, and \<open>NewHTTP\<close> takes over the
  configuration it is given.
\<close>

theorem config_frame:
  "fst (snd (EnsureCert env defaultPath h w)) =
     (if Insecure h \<or> CertFile h \<noteq> [] then h
      else h\<lparr>CertFile := defaultPath @ ''.crt'', KeyFile := defaultPath @ ''.key''\<rparr>) \<and>
   config_of (fst (snd (ListenAndServe outcome ctx h w))) = config_of h \<and>
   fst (snd (Shutdown res h w)) = h \<and>
   fst (snd (ShutdownWithTimeout res duration h w)) = h \<and>
   config_of (NewHTTP c) = c"
  using trace_Wrap_Some
  by (auto simp: EnsureCert_def generate_and_persist_def generate_def ListenAndServe_def
        Shutdown_def ShutdownWithTimeout_def config_of_def NewHTTP_def Let_def
      split: prod.splits option.splits sum.splits)

text \<open>An explicit configuration is kept; an empty one gets the candidate paths.\<close>

theorem config_frame_witness:
  "fst (snd (EnsureCert env0 ''/d/auth'' http_explicit world_valid)) = http_explicit \<and>
   fst (snd (EnsureCert env0 ''/d/auth'' http0 world0))
     = http0\<lparr>CertFile := ''/d/auth.crt'', KeyFile := ''/d/auth.key''\<rparr> \<and>
   config_of (fst (snd (ListenAndServe ErrServerClosed 7 http0 world0))) = config_of http0"
  using config_frame [of env0 "''/d/auth''" http_explicit world_valid ErrServerClosed 7 None 0
                         "config_of http0"]
    config_frame [of env0 "''/d/auth''" http0 world0 ErrServerClosed 7 None 0 "config_of http0"]
  by (simp add: fixture_defs)

text \<open>
  C9 as stated, no operation changes a field of the configuration, fails for
  \<open>EnsureCert\<close> on the fallback path: the empty \<open>CertFile\<close> and \<open>KeyFile\<close> of the
  wrapper are the candidate paths afterwards.
\<close>

theorem config_frame_counterexample:
  "CertFile http0 = [] \<and> KeyFile http0 = [] \<and>
   CertFile (fst (snd (EnsureCert env0 ''/d/auth'' http0 world0))) = ''/d/auth.crt'' \<and>
   KeyFile (fst (snd (EnsureCert env0 ''/d/auth'' http0 world0))) = ''/d/auth.key'' \<and>
   config_of (fst (snd (EnsureCert env0 ''/d/auth'' http0 world0))) \<noteq> config_of http0"
  by (simp add: model_defs fixture_defs config_of_def)

end
